theory Spec2Isabelle
  imports Complex_Main
begin

section \<open>Element trees\<close>

text \<open>
  Every component of the application is a function without arguments that returns a
  JSX element tree. An element has a tag, an ordered list of attributes and an ordered
  list of children; a child is an element or a piece of literal text. An attribute value
  is a number, a string, a boolean, an object literal (kept as an association list, in
  the order in which the source writes the keys) or an arrow function.

  The only arrow functions of the sources are the three \<^verbatim>\<open>tabBarIcon\<close> callbacks. Two of
  them destructure \<^verbatim>\<open>{ color }\<close> from their argument and one destructures
  \<^verbatim>\<open>{ color, size }\<close>; the two constructors \<open>ColorFn\<close> and \<open>ColorSizeFn\<close> keep that
  parameter list visible.
\<close>

datatype jsx_value =
    Num real
  | Str string
  | Bool bool
  | Obj "(string \<times> jsx_value) list"
  | ColorFn "string \<Rightarrow> element"
  | ColorSizeFn "string \<Rightarrow> real \<Rightarrow> element"
and element =
    Element string "(string \<times> jsx_value) list" "element list"
  | TextNode string

fun tag :: "element \<Rightarrow> string" where
  "tag (Element t ps cs) = t"
| "tag (TextNode s) = []"

fun props :: "element \<Rightarrow> (string \<times> jsx_value) list" where
  "props (Element t ps cs) = ps"
| "props (TextNode s) = []"

fun children :: "element \<Rightarrow> element list" where
  "children (Element t ps cs) = cs"
| "children (TextNode s) = []"

text \<open>Reading an attribute of an element, and a key of an object literal.\<close>

definition attr :: "string \<Rightarrow> element \<Rightarrow> jsx_value option" where
  "attr k e = map_of (props e) k"

fun field :: "string \<Rightarrow> jsx_value \<Rightarrow> jsx_value option" where
  "field k (Obj kvs) = map_of kvs k"
| "field k v = None"

fun as_str :: "jsx_value \<Rightarrow> string option" where
  "as_str (Str s) = Some s"
| "as_str v = None"

definition style_of :: "string \<Rightarrow> element \<Rightarrow> jsx_value option" where
  "style_of k e = Option.bind (attr ''style'' e) (field k)"

definition option_of :: "string \<Rightarrow> element \<Rightarrow> jsx_value option" where
  "option_of k s = Option.bind (attr ''options'' s) (field k)"

definition screen_name :: "element \<Rightarrow> string option" where
  "screen_name s = Option.bind (attr ''name'' s) as_str"

definition screen_title :: "element \<Rightarrow> string option" where
  "screen_title s = Option.bind (option_of ''title'' s) as_str"

text \<open>Traversals of a tree, in document order.\<close>

fun find_tag :: "string \<Rightarrow> element \<Rightarrow> element list" where
  "find_tag t (Element t' ps cs) =
     (if t' = t then [Element t' ps cs] else []) @ concat (map (find_tag t) cs)"
| "find_tag t (TextNode s) = []"

fun text_content :: "element \<Rightarrow> string list" where
  "text_content (Element t ps cs) = concat (map text_content cs)"
| "text_content (TextNode s) = [s]"

fun descendants :: "element \<Rightarrow> element list" where
  "descendants (Element t ps cs) = concat (map (\<lambda>c. c # descendants c) cs)"
| "descendants (TextNode s) = []"

definition links :: "element \<Rightarrow> (jsx_value option \<times> string list) list" where
  "links e = map (\<lambda>l. (attr ''href'' l, text_content l)) (find_tag ''Link'' e)"

section \<open>The root layout (app/_layout.tsx)\<close>

definition RootLayout :: element where
  "RootLayout =
     Element ''Stack'' [(''screenOptions'', Obj [(''headerShown'', Bool False)])]
       [Element ''Stack.Screen'' [(''name'', Str ''(tabs)'')] [],
        Element ''Stack.Screen''
          [(''name'', Str ''index''), (''options'', Obj [(''title'', Str ''Home'')])] [],
        Element ''Stack.Screen''
          [(''name'', Str ''about/index''), (''options'', Obj [(''title'', Str ''About Us'')])] []]"

text \<open>
  The navigation framework resolves an option of a screen from the screen's own
  \<^verbatim>\<open>options\<close> when the key is written there, and from the navigator's
  \<^verbatim>\<open>screenOptions\<close> otherwise.
\<close>

definition resolved_option :: "element \<Rightarrow> string \<Rightarrow> element \<Rightarrow> jsx_value option" where
  "resolved_option nav k s =
     (case option_of k s of
        Some v \<Rightarrow> Some v
      | None \<Rightarrow> Option.bind (attr ''screenOptions'' nav) (field k))"

section \<open>The drawer layout (app/(drawer)/_layout.tsx)\<close>

definition DrawerRootLayout :: element where
  "DrawerRootLayout =
     Element ''GestureHandlerRootView'' [(''style'', Obj [(''flex'', Num 1)])]
       [Element ''Drawer'' []
          [Element ''Drawer.Screen''
             [(''name'', Str ''index''), (''options'', Obj [(''title'', Str ''My home page'')])] [],
           Element ''Drawer.Screen''
             [(''name'', Str ''setting''), (''options'', Obj [(''title'', Str ''Settings'')])] []]]"

section \<open>The initial screen (app/index.tsx)\<close>

definition Index :: element where
  "Index =
     Element ''View''
       [(''style'', Obj [(''flex'', Num 1),
                         (''justifyContent'', Str ''center''),
                         (''alignItems'', Str ''center'')])]
       [Element ''Text'' [] [TextNode ''Hello Mubarak Ansari''],
        Element ''Link'' [(''href'', Str ''about'')] [TextNode ''Go to About'']]"

section \<open>The tab layout (app/(tabs)/_layout.tsx)\<close>

text \<open>
  \<^verbatim>\<open>StyleSheet.hairlineWidth\<close> is a constant of the GUI toolkit whose value depends on
  the device; the layout takes it as the parameter \<open>hairlineWidth\<close>.
\<close>

definition TabRoots :: "real \<Rightarrow> element" where
  "TabRoots hairlineWidth =
     Element ''Tabs'' []
       [Element ''Tabs.Screen''
          [(''name'', Str ''index''),
           (''options'', Obj
              [(''title'', Str ''Home''),
               (''tabBarIcon'', ColorFn (\<lambda>color.
                  Element ''FontAwesome''
                    [(''size'', Num 28), (''name'', Str ''home''), (''color'', Str color)] []))])] [],
        Element ''Tabs.Screen''
          [(''name'', Str ''aboutus''),
           (''options'', Obj
              [(''title'', Str ''About us''),
               (''tabBarIcon'', ColorSizeFn (\<lambda>color size.
                  Element ''View''
                    [(''style'', Obj
                        [(''width'', Num 60),
                         (''height'', Num 60),
                         (''borderRadius'', Num 50),
                         (''backgroundColor'', Str ''white''),
                         (''bottom'', Num 15),
                         (''justifyContent'', Str ''center''),
                         (''alignItems'', Str ''center''),
                         (''borderColor'', Str ''gray''),
                         (''borderWidth'', Num hairlineWidth)])]
                    [Element ''FontAwesome''
                       [(''size'', Num 28), (''name'', Str ''globe''), (''color'', Str color)] []]))])] [],
        Element ''Tabs.Screen''
          [(''name'', Str ''profile''),
           (''options'', Obj
              [(''title'', Str ''Profile''),
               (''tabBarIcon'', ColorFn (\<lambda>color.
                  Element ''FontAwesome''
                    [(''size'', Num 28), (''name'', Str ''user-circle-o''), (''color'', Str color)] []))])] []]"

text \<open>
  The tab bar calls a \<^verbatim>\<open>tabBarIcon\<close> callback with one object that carries the fields
  \<^verbatim>\<open>focused\<close>, \<^verbatim>\<open>color\<close> and \<^verbatim>\<open>size\<close>; the callback's parameter pattern picks the
  fields it names.
\<close>

record icon_props =
  prop_focused :: bool
  prop_color :: string
  prop_size :: real

fun call_icon :: "jsx_value \<Rightarrow> icon_props \<Rightarrow> element option" where
  "call_icon (ColorFn f) p = Some (f (prop_color p))"
| "call_icon (ColorSizeFn f) p = Some (f (prop_color p) (prop_size p))"
| "call_icon v p = None"

fun icon_params :: "jsx_value \<Rightarrow> string list option" where
  "icon_params (ColorFn f) = Some [''color'']"
| "icon_params (ColorSizeFn f) = Some [''color'', ''size'']"
| "icon_params v = None"

definition tabBarIcon :: "element \<Rightarrow> icon_props \<Rightarrow> element option" where
  "tabBarIcon s p = Option.bind (option_of ''tabBarIcon'' s) (\<lambda>f. call_icon f p)"

definition tab_screen :: "real \<Rightarrow> string \<Rightarrow> element option" where
  "tab_screen hairlineWidth n =
     find (\<lambda>s. screen_name s = Some n) (children (TabRoots hairlineWidth))"

definition tab_icon :: "real \<Rightarrow> string \<Rightarrow> icon_props \<Rightarrow> element option" where
  "tab_icon hairlineWidth n p =
     Option.bind (tab_screen hairlineWidth n) (\<lambda>s. tabBarIcon s p)"

text \<open>
  A box is drawn as a circle when its sides are equal and its corner radius is at least
  half a side. A positive \<^verbatim>\<open>bottom\<close> moves a box upward from where the layout puts it.
\<close>

definition circular :: "element \<Rightarrow> bool" where
  "circular e =
     (case (style_of ''width'' e, style_of ''height'' e, style_of ''borderRadius'' e) of
        (Some (Num w), Some (Num h), Some (Num r)) \<Rightarrow> w = h \<and> w \<le> 2 * r
      | _ \<Rightarrow> False)"

definition offset_upward :: "element \<Rightarrow> bool" where
  "offset_upward e = (case style_of ''bottom'' e of Some (Num b) \<Rightarrow> 0 < b | _ \<Rightarrow> False)"

definition glyph_sizes :: "element \<Rightarrow> jsx_value option list" where
  "glyph_sizes e = map (attr ''size'') (find_tag ''FontAwesome'' e)"

section \<open>Evaluation lemmas\<close>

lemmas accessor_defs =
  attr_def style_of_def option_of_def screen_name_def screen_title_def

lemma tab_screen_index:
  "tab_screen hw ''index'' = Some (children (TabRoots hw) ! 0)"
  by (simp add: tab_screen_def TabRoots_def accessor_defs)

lemma tab_screen_aboutus:
  "tab_screen hw ''aboutus'' = Some (children (TabRoots hw) ! 1)"
  by (simp add: tab_screen_def TabRoots_def accessor_defs)

lemma tab_screen_profile:
  "tab_screen hw ''profile'' = Some (children (TabRoots hw) ! 2)"
  by (simp add: tab_screen_def TabRoots_def accessor_defs)

lemma aboutus_icon:
  "tab_icon hw ''aboutus'' p =
     Some (Element ''View''
       [(''style'', Obj
           [(''width'', Num 60),
            (''height'', Num 60),
            (''borderRadius'', Num 50),
            (''backgroundColor'', Str ''white''),
            (''bottom'', Num 15),
            (''justifyContent'', Str ''center''),
            (''alignItems'', Str ''center''),
            (''borderColor'', Str ''gray''),
            (''borderWidth'', Num hw)])]
       [Element ''FontAwesome''
          [(''size'', Num 28), (''name'', Str ''globe''), (''color'', Str (prop_color p))] []])"
  by (simp add: tab_icon_def tab_screen_aboutus tabBarIcon_def)
     (simp add: TabRoots_def accessor_defs)

lemma tab_icons:
  "map (\<lambda>s. tabBarIcon s p) (children (TabRoots hw)) =
     [Some (Element ''FontAwesome''
        [(''size'', Num 28), (''name'', Str ''home''), (''color'', Str (prop_color p))] []),
      tab_icon hw ''aboutus'' p,
      Some (Element ''FontAwesome''
        [(''size'', Num 28), (''name'', Str ''user-circle-o''), (''color'', Str (prop_color p))] [])]"
  by (simp add: aboutus_icon) (simp add: TabRoots_def tabBarIcon_def accessor_defs)

section \<open>The root stack\<close>



text \<open>
  C6. The stack-level screen options set \<^verbatim>\<open>headerShown\<close> to false, none of the three
  declared screens writes \<^verbatim>\<open>headerShown\<close> in its own options, and so the header of
  every declared screen (the tab group, \<^verbatim>\<open>index\<close>, \<^verbatim>\<open>about/index\<close>) resolves to
  hidden.
\<close>

theorem RootLayout_headers_hidden:
  "Option.bind (attr ''screenOptions'' RootLayout) (field ''headerShown'') = Some (Bool False)
   \<and> map screen_name (children RootLayout) = [Some ''(tabs)'', Some ''index'', Some ''about/index'']
   \<and> map (option_of ''headerShown'') (children RootLayout) = [None, None, None]
   \<and> map (resolved_option RootLayout ''headerShown'') (children RootLayout) =
       [Some (Bool False), Some (Bool False), Some (Bool False)]"
  by (simp add: RootLayout_def resolved_option_def accessor_defs)

section \<open>The drawer group\<close>

text \<open>
  C2. The drawer group declares exactly two destinations. Their route names are
  \<^verbatim>\<open>index\<close> and \<^verbatim>\<open>setting\<close>, their display titles are "My home page" and
  "Settings", and for each destination the title differs from the route name.
\<close>

theorem DrawerRootLayout_destinations:
  "find_tag ''Drawer.Screen'' DrawerRootLayout = concat (map children (find_tag ''Drawer'' DrawerRootLayout))
   \<and> map (\<lambda>s. (screen_name s, screen_title s)) (find_tag ''Drawer.Screen'' DrawerRootLayout) =
       [(Some ''index'', Some ''My home page''), (Some ''setting'', Some ''Settings'')]
   \<and> map (\<lambda>s. screen_title s = screen_name s) (find_tag ''Drawer.Screen'' DrawerRootLayout) =
       [False, False]"
  by (simp add: DrawerRootLayout_def accessor_defs)

text \<open>
  C8. The root of the drawer layout is the gesture-handling wrapper, styled with
  \<^verbatim>\<open>flex: 1\<close> so that it fills the available space. Its only child is the drawer
  navigator, whose children are the two drawer screens; these three elements are all
  that the wrapper contains.
\<close>

theorem DrawerRootLayout_inside_gesture_root:
  "tag DrawerRootLayout = ''GestureHandlerRootView''
   \<and> style_of ''flex'' DrawerRootLayout = Some (Num 1)
   \<and> map tag (children DrawerRootLayout) = [''Drawer'']
   \<and> map (\<lambda>d. map tag (children d)) (children DrawerRootLayout) =
       [[''Drawer.Screen'', ''Drawer.Screen'']]
   \<and> map tag (descendants DrawerRootLayout) = [''Drawer'', ''Drawer.Screen'', ''Drawer.Screen'']"
  by (simp add: DrawerRootLayout_def accessor_defs)

section \<open>The initial screen\<close>

text \<open>
  C5. The initial screen shows the greeting "Hello Mubarak Ansari" and one link. The
  link's label is "Go to About" and its target is the literal route \<^verbatim>\<open>about\<close>. The
  screen shows no other text.
\<close>

theorem Index_greeting_and_link:
  "map text_content (find_tag ''Text'' Index) = [[''Hello Mubarak Ansari'']]
   \<and> links Index = [(Some (Str ''about''), [''Go to About''])]
   \<and> text_content Index = [''Hello Mubarak Ansari'', ''Go to About'']"
  by (simp add: Index_def links_def accessor_defs)

section \<open>The tab group\<close>

text \<open>
  C7. The tab group declares exactly three destinations, \<^verbatim>\<open>index\<close>, \<^verbatim>\<open>aboutus\<close> and
  \<^verbatim>\<open>profile\<close>, in that order. Each of them declares a title and an icon-rendering
  function. The functions of \<^verbatim>\<open>index\<close> and \<^verbatim>\<open>profile\<close> take the color only; the
  function of \<^verbatim>\<open>aboutus\<close> takes the color and the size.
\<close>

theorem TabRoots_destinations:
  "tag (TabRoots hw) = ''Tabs''
   \<and> map tag (children (TabRoots hw)) = [''Tabs.Screen'', ''Tabs.Screen'', ''Tabs.Screen'']
   \<and> map (\<lambda>s. (screen_name s, screen_title s,
                Option.bind (option_of ''tabBarIcon'' s) icon_params))
        (children (TabRoots hw)) =
       [(Some ''index'', Some ''Home'', Some [''color'']),
        (Some ''aboutus'', Some ''About us'', Some [''color'', ''size'']),
        (Some ''profile'', Some ''Profile'', Some [''color''])]"
  by (simp add: TabRoots_def accessor_defs)

text \<open>
  C3. For every tint color (and every other field of the argument), the icon of the
  \<^verbatim>\<open>aboutus\<close> tab is a container of width 60 and height 60 that is drawn as a circle
  and moved upward by 15, with the glyph as its only child. The container's style is
  the same for any two arguments.
\<close>

theorem aboutus_icon_container:
  "map_option (\<lambda>e. (tag e, style_of ''width'' e, style_of ''height'' e,
                     style_of ''borderRadius'' e, style_of ''bottom'' e,
                     circular e, offset_upward e, map tag (children e)))
     (tab_icon hw ''aboutus'' p) =
     Some (''View'', Some (Num 60), Some (Num 60), Some (Num 50), Some (Num 15),
           True, True, [''FontAwesome''])
   \<and> map_option (attr ''style'') (tab_icon hw ''aboutus'' p) =
       map_option (attr ''style'') (tab_icon hw ''aboutus'' q)"
  by (simp add: aboutus_icon accessor_defs circular_def offset_upward_def)

text \<open>
  C9. The icon function of the \<^verbatim>\<open>aboutus\<close> tab names a size parameter and ignores it:
  with the other fields of the argument fixed, any two sizes give the same icon.
\<close>

theorem aboutus_icon_ignores_size:
  "Option.bind (Option.bind (tab_screen hw ''aboutus'') (option_of ''tabBarIcon'')) icon_params =
     Some [''color'', ''size'']
   \<and> tab_icon hw ''aboutus'' (p\<lparr>prop_size := s1\<rparr>) = tab_icon hw ''aboutus'' (p\<lparr>prop_size := s2\<rparr>)
   \<and> tab_icon hw ''aboutus'' (p\<lparr>prop_size := s1\<rparr>) \<noteq> None"
  by (simp add: aboutus_icon tab_screen_aboutus) (simp add: TabRoots_def accessor_defs)

text \<open>
  C10. Each of the three icon functions draws exactly one glyph, of size 28, whatever
  the color, the size and the focus flag of its argument.
\<close>

theorem tab_icons_glyph_size:
  "map (\<lambda>s. map_option glyph_sizes (tabBarIcon s p)) (children (TabRoots hw)) =
     [Some [Some (Num 28)], Some [Some (Num 28)], Some [Some (Num 28)]]"
proof -
  have "map (\<lambda>s. map_option glyph_sizes (tabBarIcon s p)) (children (TabRoots hw)) =
        map (map_option glyph_sizes) (map (\<lambda>s. tabBarIcon s p) (children (TabRoots hw)))"
    by simp
  also have "\<dots> = [Some [Some (Num 28)], Some [Some (Num 28)], Some [Some (Num 28)]]"
    unfolding tab_icons by (simp add: aboutus_icon glyph_sizes_def attr_def)
  finally show ?thesis .
qed

end
